theory Spec2Isabelle
  imports Main "HOL-Library.AList" "HOL-Library.Char_ord" "HOL-Library.List_Lexorder"
begin

section \<open>Configuration parameters\<close>

text \<open>
  Times are points on a clock counted in seconds (the unit of every
  \<^verbatim>\<open>datetime.timedelta(seconds=...)\<close> of the hub), durations are seconds.
  Failure counters start at 0 and are only ever incremented, so they are naturals.
\<close>

type_synonym time = int

definition EXPIRATION_DELTA :: int where
  "EXPIRATION_DELTA = 90 * 86400"

definition LEASE_PERIOD_SECONDS :: int where
  "LEASE_PERIOD_SECONDS = 15"

definition EVENT_SUBSCRIBER_CHUNK_SIZE :: nat where
  "EVENT_SUBSCRIBER_CHUNK_SIZE = 10"

definition MAX_SUBSCRIPTION_CONFIRM_FAILURES :: nat where
  "MAX_SUBSCRIPTION_CONFIRM_FAILURES = 10"

definition SUBSCRIPTION_RETRY_PERIOD :: int where
  "SUBSCRIPTION_RETRY_PERIOD = 300"

definition MAX_FEED_PULL_FAILURES :: nat where
  "MAX_FEED_PULL_FAILURES = 9"

definition FEED_PULL_RETRY_PERIOD :: int where
  "FEED_PULL_RETRY_PERIOD = 60"

definition MAX_DELIVERY_FAILURES :: nat where
  "MAX_DELIVERY_FAILURES = 8"

definition DELIVERY_RETRY_PERIOD :: int where
  "DELIVERY_RETRY_PERIOD = 60"

definition BOOSTRAP_FEED_CHUNK_SIZE :: nat where
  "BOOSTRAP_FEED_CHUNK_SIZE = 200"

definition POLLING_BOOTSTRAP_PERIOD :: int where
  "POLLING_BOOTSTRAP_PERIOD = 10800"



section \<open>The Datastore and Memcache\<close>

text \<open>
  One table per entity kind: an association list from the entity's key to its
  properties, with at most one row per key. A stored entity is a row (key, properties);
  \<^verbatim>\<open>put()\<close> overwrites the row of the key or adds one, \<^verbatim>\<open>delete()\<close> removes it,
  \<^verbatim>\<open>get()\<close> looks the key up. A Python \<^verbatim>\<open>dict\<close> is the same structure.
\<close>

type_synonym ('k, 'e) table = "('k \<times> 'e) list"

definition db_get :: "('k, 'e) table \<Rightarrow> 'k \<Rightarrow> 'e option" where
  "db_get db k = map_of db k"

definition db_put :: "'k \<Rightarrow> 'e \<Rightarrow> ('k, 'e) table \<Rightarrow> ('k, 'e) table" where
  "db_put k e db = AList.update k e db"

definition db_delete :: "'k \<Rightarrow> ('k, 'e) table \<Rightarrow> ('k, 'e) table" where
  "db_delete k db = AList.delete k db"

text \<open>
  \<^verbatim>\<open>dict(pairs)\<close>: a later pair overwrites the value of an earlier one with its key.
  Python does not fix the order in which a dictionary iterates; here it is the order in
  which the keys were first inserted, and no property below depends on it.
\<close>

definition dict_of :: "('k \<times> 'v) list \<Rightarrow> ('k, 'v) table" where
  "dict_of pairs = fold (\<lambda>(k, v). db_put k v) pairs []"

datatype py_error = ValueError | KeyError | AssertionError

text \<open>
  Memcache: the entries (expiry is not modelled: no time passes inside one call) and
  the API calls made so far, in order.
\<close>

datatype memcache_call =
  Add_multi "string list" int
| Delete_multi "string list"
| Delete string

record memcache =
  entries :: "(string, string) table"
  calls :: "memcache_call list"

text \<open>
  \<^verbatim>\<open>memcache.add_multi(mapping, time)\<close> sets the keys that have no entry and returns
  the keys it did not set.
\<close>

definition add_multi :: "(string, string) table \<Rightarrow> int \<Rightarrow> memcache \<Rightarrow> string list \<times> memcache" where
  "add_multi mapping time mc =
     (let not_set = filter (\<lambda>k. db_get (entries mc) k \<noteq> None) (map fst mapping);
          added = filter (\<lambda>(k, v). db_get (entries mc) k = None) mapping
      in (not_set,
          mc\<lparr>entries := fold (\<lambda>(k, v). db_put k v) added (entries mc),
             calls := calls mc @ [Add_multi (map fst mapping) time]\<rparr>))"

definition delete_multi :: "string list \<Rightarrow> memcache \<Rightarrow> bool \<times> memcache" where
  "delete_multi keys mc =
     (True, mc\<lparr>entries := fold db_delete keys (entries mc),
               calls := calls mc @ [Delete_multi keys]\<rparr>)"

definition memcache_delete :: "string \<Rightarrow> memcache \<Rightarrow> memcache" where
  "memcache_delete k mc =
     mc\<lparr>entries := db_delete k (entries mc), calls := calls mc @ [Delete k]\<rparr>"

section \<open>Helper functions\<close>

text \<open>
  \<^verbatim>\<open>hashlib.sha1\<close> is a library function; every function that hashes takes it as the
  parameter \<open>sha1\<close>, which stands for \<^verbatim>\<open>sha1_hash\<close>.
\<close>

definition get_hash_key_name :: "(string \<Rightarrow> string) \<Rightarrow> string \<Rightarrow> string" where
  "get_hash_key_name sha1 v = ''hash_'' @ sha1 v"

text \<open>
  \<^verbatim>\<open>random.sample(population, k)\<close>: \<open>k\<close> elements drawn without replacement. The
  random source is the list \<open>rs\<close>: each draw takes its head (0 when the list is used
  up) modulo the number of elements left. Python raises ValueError when \<open>k\<close> exceeds
  the size of the population.
\<close>

fun draw :: "nat list \<Rightarrow> 'a list \<Rightarrow> nat \<Rightarrow> 'a list" where
  "draw rs xs 0 = []"
| "draw rs xs (Suc k) =
     (if xs = [] then []
      else let i = (case rs of [] \<Rightarrow> 0 | r # _ \<Rightarrow> r) mod length xs
           in xs ! i # draw (tl rs) (take i xs @ drop (Suc i) xs) k)"

definition random_sample :: "nat list \<Rightarrow> 'a list \<Rightarrow> nat \<Rightarrow> py_error + 'a list" where
  "random_sample rs population k =
     (if k > length population then Inl ValueError else Inr (draw rs population k))"

text \<open>\<^verbatim>\<open>[d[k] for k in keys]\<close>: KeyError (here \<open>None\<close>) at the first key not in \<open>d\<close>.\<close>

fun lookup_all :: "('k, 'v) table \<Rightarrow> 'k list \<Rightarrow> 'v list option" where
  "lookup_all d [] = Some []"
| "lookup_all d (k # ks) =
     (case db_get d k of
        None \<Rightarrow> None
      | Some v \<Rightarrow> (case lookup_all d ks of None \<Rightarrow> None | Some vs \<Rightarrow> Some (v # vs)))"

text \<open>
  What \<^verbatim>\<open>query_and_own\<close> returns: \<^verbatim>\<open>None\<close>, a single instance, or a list of
  instances.
\<close>

datatype 'e work = No_work | One_work 'e | Work_list "'e list"

text \<open>
  The intermediate values of \<^verbatim>\<open>query_and_own\<close>. \<open>query_results\<close> is the whole result of
  the GQL query in its order, \<^verbatim>\<open>fetch(n)\<close> takes its first \<open>n\<close> rows; \<open>key_str\<close> is
  \<^verbatim>\<open>str(w.key())\<close>.
\<close>

definition qo_work_to_do :: "'e list \<Rightarrow> nat \<Rightarrow> nat \<Rightarrow> 'e list" where
  "qo_work_to_do query_results work_count sample_ratio =
     (let sample_size = work_count * sample_ratio in take sample_size query_results)"

definition qo_work_map :: "('e \<Rightarrow> string) \<Rightarrow> 'e list \<Rightarrow> (string, 'e) table" where
  "qo_work_map key_str possible_work = dict_of (map (\<lambda>w. (key_str w, w)) possible_work)"

definition qo_try_lock_map :: "(string, 'e) table \<Rightarrow> (string, string) table" where
  "qo_try_lock_map work_map = dict_of (map (\<lambda>k. (k, ''owned'')) (map fst work_map))"

definition qo_own :: "(string, 'e) table \<Rightarrow> int \<Rightarrow> nat \<Rightarrow> memcache \<Rightarrow>
    py_error + ('e work \<times> memcache)" where
  "qo_own work_map lease_period work_count mc =
     (let try_lock_map = qo_try_lock_map work_map;
          (not_set_keys, mc1) = add_multi try_lock_map lease_period mc;
          locked_keys = filter (\<lambda>k. k \<notin> set not_set_keys) (map fst work_map);
          reset_keys = drop work_count locked_keys;
          mc2 = (if reset_keys \<noteq> [] then snd (delete_multi reset_keys mc1) else mc1)
      in case lookup_all work_map (take work_count locked_keys) of
           None \<Rightarrow> Inl KeyError
         | Some work \<Rightarrow>
             if work_count = 1
             then (case work of [] \<Rightarrow> Inr (No_work, mc2) | w # _ \<Rightarrow> Inr (One_work w, mc2))
             else Inr (Work_list work, mc2))"

definition query_and_own :: "('e \<Rightarrow> string) \<Rightarrow> 'e list \<Rightarrow> int \<Rightarrow> nat \<Rightarrow> nat \<Rightarrow> nat \<Rightarrow>
    nat list \<Rightarrow> memcache \<Rightarrow> py_error + ('e work \<times> memcache)" where
  "query_and_own key_str query_results lease_period work_count sample_ratio lock_ratio rs mc =
     (let work_to_do = qo_work_to_do query_results work_count sample_ratio
      in if work_to_do = [] then
           (if work_count = 1 then Inr (No_work, mc) else Inr (Work_list [], mc))
         else
           case random_sample rs work_to_do
                  (min (length work_to_do) (lock_ratio * work_count)) of
             Inl err \<Rightarrow> Inl err
           | Inr possible_work \<Rightarrow>
               qo_own (qo_work_map key_str possible_work) lease_period work_count mc)"

section \<open>Subscription\<close>

datatype subscription_state = STATE_NOT_VERIFIED | STATE_VERIFIED | STATE_TO_DELETE

text \<open>
  The properties of a Subscription. A stored Subscription is a row of the table under
  its key name, \<^verbatim>\<open>Key.from_path('Subscription', key_name)\<close>.
\<close>

record subscription =
  callback :: string
  callback_hash :: string
  sub_topic :: string
  sub_topic_hash :: string
  created_time :: time
  sub_last_modified :: time
  expiration_time :: time
  sub_eta :: time
  confirm_failures :: nat
  verify_token :: "string option"
  subscription_state :: subscription_state

text \<open>
  \<^verbatim>\<open>put()\<close> of a Subscription: \<^verbatim>\<open>last_modified\<close> is an \<^verbatim>\<open>auto_now\<close> property. The entity
  that is written carries the clock of the Datastore library (\<open>stamp\<close>) there; the
  instance in memory keeps the value it had.
\<close>

definition sub_put :: "time \<Rightarrow> string \<Rightarrow> subscription \<Rightarrow> (string, subscription) table \<Rightarrow>
    (string, subscription) table" where
  "sub_put stamp key_name self db = db_put key_name (self\<lparr>sub_last_modified := stamp\<rparr>) db"

definition create_key_name :: "(string \<Rightarrow> string) \<Rightarrow> string \<Rightarrow> string \<Rightarrow> string" where
  "create_key_name sha1 cb tp = get_hash_key_name sha1 (cb @ [CHR 0x0A] @ tp)"

text \<open>
  \<^verbatim>\<open>Subscription.request_insert(callback, topic, verify_token)\<close>, the body of its
  transaction. \<open>now\<close> is \<^verbatim>\<open>datetime.datetime.now()\<close>; the \<^verbatim>\<open>auto_now_add\<close> properties
  \<^verbatim>\<open>created_time\<close> and \<^verbatim>\<open>eta\<close> take the library's clock \<open>stamp\<close>.
\<close>

definition request_insert :: "(string \<Rightarrow> string) \<Rightarrow> string \<Rightarrow> string \<Rightarrow> string \<Rightarrow> time \<Rightarrow> time \<Rightarrow>
    (string, subscription) table \<Rightarrow> bool \<times> (string, subscription) table" where
  "request_insert sha1 cb tp token now stamp db =
     (let key_name = create_key_name sha1 cb tp
      in case db_get db key_name of
           None \<Rightarrow>
             (let sub = \<lparr>callback = cb,
                        callback_hash = sha1 cb,
                        sub_topic = tp,
                        sub_topic_hash = sha1 tp,
                        created_time = stamp,
                        sub_last_modified = stamp,
                        expiration_time = now + EXPIRATION_DELTA,
                        sub_eta = stamp,
                        confirm_failures = 0,
                        verify_token = Some token,
                        subscription_state = STATE_NOT_VERIFIED\<rparr>
              in (True, sub_put stamp key_name sub db))
         | Some sub \<Rightarrow> (False, db))"

text \<open>
  \<^verbatim>\<open>Subscription.get_subscribers(topic, count, starting_at_callback)\<close>: the verified
  subscribers of the topic in the order of their callback hashes.
\<close>

definition get_subscribers :: "(string \<Rightarrow> string) \<Rightarrow> string \<Rightarrow> nat \<Rightarrow> string \<Rightarrow>
    (string, subscription) table \<Rightarrow> (string \<times> subscription) list" where
  "get_subscribers sha1 tp count starting_at_callback db =
     take count
       (sort_key (\<lambda>row. callback_hash (snd row))
          (filter (\<lambda>row. sub_topic_hash (snd row) = sha1 tp
                     \<and> subscription_state (snd row) = STATE_VERIFIED
                     \<and> (starting_at_callback = []
                          \<or> callback_hash (snd row) \<ge> sha1 starting_at_callback)) db))"

text \<open>
  \<^verbatim>\<open>self.confirm_failed(max_failures, retry_period, now)\<close> on the Subscription stored
  under \<open>key_name\<close>. The result is the instance as the method leaves it and the table
  after the delete or the put.
\<close>

definition confirm_failed :: "string \<Rightarrow> subscription \<Rightarrow> nat \<Rightarrow> int \<Rightarrow> time \<Rightarrow> time \<Rightarrow>
    (string, subscription) table \<Rightarrow> subscription \<times> (string, subscription) table" where
  "confirm_failed key_name self max_failures retry_period now stamp db =
     (if confirm_failures self \<ge> max_failures
      then (self, db_delete key_name db)
      else
        let retry_delay = retry_period * 2 ^ confirm_failures self;
            self1 = self\<lparr>sub_eta := now + retry_delay\<rparr>;
            self2 = self1\<lparr>confirm_failures := confirm_failures self1 + 1\<rparr>
        in (self2, sub_put stamp key_name self2 db))"

section \<open>FeedToFetch\<close>

record feed_to_fetch =
  ftf_topic :: string
  ftf_eta :: time
  fetching_failures :: nat
  ftf_totally_failed :: bool

text \<open>\<^verbatim>\<open>self.fetch_failed(max_failures, retry_period, now)\<close> on the row \<open>key_name\<close>.\<close>

definition fetch_failed :: "string \<Rightarrow> feed_to_fetch \<Rightarrow> nat \<Rightarrow> int \<Rightarrow> time \<Rightarrow>
    (string, feed_to_fetch) table \<Rightarrow> feed_to_fetch \<times> (string, feed_to_fetch) table" where
  "fetch_failed key_name self max_failures retry_period now db =
     (if fetching_failures self \<ge> max_failures
      then
        let self1 = self\<lparr>ftf_totally_failed := True\<rparr>
        in (self1, db_put key_name self1 db)
      else
        let retry_delay = retry_period * 2 ^ fetching_failures self;
            self1 = self\<lparr>ftf_eta := now + retry_delay\<rparr>;
            self2 = self1\<lparr>fetching_failures := fetching_failures self1 + 1\<rparr>
        in (self2, db_put key_name self2 db))"

text \<open>
  The fetch worker's failures in a row on one work item, each at its own time, with the
  default parameters.
\<close>

fun fetch_failures :: "string \<Rightarrow> time list \<Rightarrow> feed_to_fetch \<times> (string, feed_to_fetch) table \<Rightarrow>
    feed_to_fetch \<times> (string, feed_to_fetch) table" where
  "fetch_failures key_name [] st = st"
| "fetch_failures key_name (now # nows) (self, db) =
     fetch_failures key_name nows
       (fetch_failed key_name self MAX_FEED_PULL_FAILURES FEED_PULL_RETRY_PERIOD now db)"

text \<open>
  \<^verbatim>\<open>str(w.key())\<close> of a row: an encoding of the kind and the key name.
\<close>

definition key_str :: "string \<Rightarrow> string \<times> 'e \<Rightarrow> string" where
  "key_str kind row = kind @ ''/'' @ fst row"

text \<open>
  The GQL query of \<^verbatim>\<open>FeedToFetch.get_work\<close>:
  \<^verbatim>\<open>WHERE eta <= :now AND totally_failed = False ORDER BY eta ASC\<close>.
\<close>

definition feed_work_query :: "time \<Rightarrow> (string, feed_to_fetch) table \<Rightarrow>
    (string \<times> feed_to_fetch) list" where
  "feed_work_query now db =
     sort_key (\<lambda>row. ftf_eta (snd row))
       (filter (\<lambda>row. ftf_eta (snd row) \<le> now \<and> ftf_totally_failed (snd row) = False) db)"

definition get_work :: "time \<Rightarrow> nat list \<Rightarrow> (string, feed_to_fetch) table \<Rightarrow> memcache \<Rightarrow>
    py_error + ((string \<times> feed_to_fetch) work \<times> memcache)" where
  "get_work now rs db mc =
     query_and_own (key_str ''FeedToFetch'') (feed_work_query now db)
       LEASE_PERIOD_SECONDS 1 20 4 rs mc"

section \<open>FeedEntryRecord and the feed diff\<close>









section \<open>EventToDeliver\<close>

datatype delivery_mode = NORMAL | RETRY

record event_to_deliver =
  ev_parent :: string
  ev_topic :: string
  ev_topic_hash :: string
  payload :: string
  last_callback :: string
  failed_callbacks :: "string list"
  delivery_mode :: delivery_mode
  retry_attempts :: nat
  ev_last_modified :: time
  ev_totally_failed :: bool






text \<open>\<^verbatim>\<open>xs.index(x)\<close>: the first index of \<open>x\<close>; ValueError is \<open>None\<close>.\<close>

fun index_of :: "'a list \<Rightarrow> 'a \<Rightarrow> nat option" where
  "index_of [] x = None"
| "index_of (y # ys) x = (if y = x then Some 0 else map_option Suc (index_of ys x))"

text \<open>\<^verbatim>\<open>[x for x in db.get(keys) if x is not None]\<close>.\<close>

definition db_get_multi :: "('k, 'e) table \<Rightarrow> 'k list \<Rightarrow> ('k \<times> 'e) list" where
  "db_get_multi db keys = List.map_filter (\<lambda>k. map_option (Pair k) (db_get db k)) keys"

text \<open>
  \<^verbatim>\<open>self.get_next_subscribers(chunk_size)\<close>: the result
  \<^verbatim>\<open>(more_subscribers, subscription_list)\<close> and the instance as the method leaves it (it
  is not put).
\<close>

definition get_next_subscribers :: "(string \<Rightarrow> string) \<Rightarrow> event_to_deliver \<Rightarrow> nat option \<Rightarrow>
    (string, subscription) table \<Rightarrow>
    (bool \<times> (string \<times> subscription) list) \<times> event_to_deliver" where
  "get_next_subscribers sha1 self chunk_size_arg subs =
     (let chunk_size = (case chunk_size_arg of None \<Rightarrow> EVENT_SUBSCRIBER_CHUNK_SIZE | Some n \<Rightarrow> n)
      in case delivery_mode self of
           NORMAL \<Rightarrow>
             let all_subscribers =
                   get_subscribers sha1 (ev_topic self) (chunk_size + 1) (last_callback self) subs;
                 self1 = (if all_subscribers \<noteq> []
                          then self\<lparr>last_callback := callback (snd (last all_subscribers))\<rparr>
                          else self\<lparr>last_callback := []\<rparr>);
                 more_subscribers = (length all_subscribers > chunk_size);
                 subscription_list = take chunk_size all_subscribers
             in ((more_subscribers, subscription_list), self1)
         | RETRY \<Rightarrow>
             let next_chunk = take chunk_size (failed_callbacks self);
                 more_subscribers = (length (failed_callbacks self) > length next_chunk);
                 (more_subscribers1, next_chunk1) =
                    (if last_callback self \<noteq> [] then
                       let final_subscription_key =
                             create_key_name sha1 (last_callback self) (ev_topic self)
                       in case index_of next_chunk final_subscription_key of
                            None \<Rightarrow> (more_subscribers, next_chunk)
                          | Some final_index \<Rightarrow> (False, take final_index next_chunk)
                     else (more_subscribers, next_chunk));
                 subscription_list = db_get_multi subs next_chunk1;
                 self1 = (if subscription_list \<noteq> [] \<and> last_callback self = []
                          then self\<lparr>last_callback := callback (snd (hd subscription_list))\<rparr>
                          else self);
                 self2 = self1\<lparr>failed_callbacks :=
                                 drop (length next_chunk1) (failed_callbacks self1)\<rparr>
             in ((more_subscribers1, subscription_list), self2))"

text \<open>
  \<^verbatim>\<open>self.update(more_callbacks, more_failed_callbacks, now, max_failures, retry_period)\<close>
  on the event stored under \<open>key\<close>. \<open>more_failed_callbacks\<close> are Subscription rows in
  the order in which the iterable yields them.
\<close>

definition update :: "string \<Rightarrow> event_to_deliver \<Rightarrow> bool \<Rightarrow> (string \<times> subscription) list \<Rightarrow>
    time \<Rightarrow> nat \<Rightarrow> int \<Rightarrow> (string, event_to_deliver) table \<Rightarrow> memcache \<Rightarrow>
    event_to_deliver \<times> (string, event_to_deliver) table \<times> memcache" where
  "update key self more_callbacks more_failed_callbacks now max_failures retry_period db mc =
     (let self1 = self\<lparr>ev_last_modified := now\<rparr>;
          more_failed_callbacks1 = sort_key (\<lambda>x. callback_hash (snd x)) more_failed_callbacks;
          self2 = self1\<lparr>failed_callbacks :=
                          failed_callbacks self1 @ map fst more_failed_callbacks1\<rparr>
      in if \<not> more_callbacks \<and> failed_callbacks self2 = [] then
           (self2, db_delete key db, mc)
         else
           let self6 =
                 (if \<not> more_callbacks then
                    let self3 = self2\<lparr>last_callback := []\<rparr>;
                        retry_delay = retry_period * 2 ^ retry_attempts self3;
                        self4 = self3\<lparr>ev_last_modified := ev_last_modified self3 + retry_delay\<rparr>;
                        self5 = self4\<lparr>retry_attempts := retry_attempts self4 + 1\<rparr>;
                        self5a = (if retry_attempts self5 > max_failures
                                  then self5\<lparr>ev_totally_failed := True\<rparr> else self5)
                    in if delivery_mode self5a = NORMAL
                       then self5a\<lparr>delivery_mode := RETRY\<rparr> else self5a
                  else self2)
           in (self6, db_put key self6 db, memcache_delete (key_str ''EventToDeliver'' (key, self6)) mc))"

section \<open>PollingMarker\<close>

record polling_marker =
  next_start :: time
  current_key :: "string option"

text \<open>
  \<^verbatim>\<open>self.should_progress(period, now)\<close>: the returned flag and the marker as the method
  leaves it. \<^verbatim>\<open>elif self.current_key\<close> is true for a key that is neither \<^verbatim>\<open>None\<close> nor
  the empty string.
\<close>

definition should_progress :: "polling_marker \<Rightarrow> int \<Rightarrow> time \<Rightarrow> bool \<times> polling_marker" where
  "should_progress self period now =
     (let now_time = now
      in if next_start self < now_time then
           (True, self\<lparr>next_start := now_time + period\<rparr>)
         else if current_key self \<noteq> None \<and> current_key self \<noteq> Some [] then
           (True, self)
         else
           (False, self))"

section \<open>The feed diff, as specified\<close>



section \<open>Example values\<close>

definition example_subscription :: subscription where
  "example_subscription =
     \<lparr>callback = ''http://s/cb'', callback_hash = ''c'', sub_topic = ''http://p/feed'',
      sub_topic_hash = ''t'', created_time = 0, sub_last_modified = 0,
      expiration_time = 7776000, sub_eta = 0, confirm_failures = 0,
      verify_token = Some ''tok1'', subscription_state = STATE_NOT_VERIFIED\<rparr>"

definition example_marker :: polling_marker where
  "example_marker = \<lparr>next_start = 1000, current_key = Some ''agVLbm93bg''\<rparr>"

definition example_event :: event_to_deliver where
  "example_event =
     \<lparr>ev_parent = ''hash_t'', ev_topic = ''http://p/feed'', ev_topic_hash = ''t'',
      payload = ''<feed></feed>'', last_callback = [], failed_callbacks = [],
      delivery_mode = NORMAL, retry_attempts = 0, ev_last_modified = 0,
      ev_totally_failed = False\<rparr>"

definition example_memcache :: memcache where
  "example_memcache = \<lparr>entries = [], calls = []\<rparr>"

definition example_feed :: feed_to_fetch where
  "example_feed =
     \<lparr>ftf_topic = ''http://p/feed'', ftf_eta = 0, fetching_failures = 0,
      ftf_totally_failed = False\<rparr>"

definition example_retry_event :: event_to_deliver where
  "example_retry_event =
     example_event\<lparr>ev_topic := ''t'', delivery_mode := RETRY, retry_attempts := 1,
       failed_callbacks := [create_key_name (\<lambda>v. v) ''cb1'' ''t'',
                            create_key_name (\<lambda>v. v) ''cb2'' ''t'',
                            create_key_name (\<lambda>v. v) ''cb3'' ''t'']\<rparr>"

definition example_subscribers :: "(string, subscription) table" where
  "example_subscribers =
     [(create_key_name (\<lambda>v. v) ''cb1'' ''t'',
       example_subscription\<lparr>callback := ''cb1'', sub_topic := ''t'',
         subscription_state := STATE_VERIFIED\<rparr>),
      (create_key_name (\<lambda>v. v) ''cb3'' ''t'',
       example_subscription\<lparr>callback := ''cb3'', sub_topic := ''t'',
         subscription_state := STATE_VERIFIED\<rparr>)]"




section \<open>Properties\<close>

subsection \<open>The tables\<close>

lemma db_get_put: "db_get (db_put k e db) k' = (if k' = k then Some e else db_get db k')"
  by (simp add: db_get_def db_put_def update_conv')

lemma db_get_delete: "db_get (db_delete k db) k' = (if k' = k then None else db_get db k')"
  by (simp add: db_get_def db_delete_def delete_conv')

subsection \<open>Subscription.confirm_failed\<close>

text \<open>
  C4, as the code has it. With the default parameters (at most
  \<open>MAX_SUBSCRIPTION_CONFIRM_FAILURES = 10\<close> failures), and for any others:
  a Subscription whose \<open>confirm_failures\<close> has reached \<open>max_failures\<close> is deleted;
  otherwise \<open>confirm_failures\<close> is incremented by 1, \<open>eta\<close> is set to
  \<open>now + retry_period * 2 ^ c\<close> where \<open>c\<close> is the value of the counter before the
  increment, and the entity is put: the stored entity is the instance with
  \<open>last_modified\<close> stamped.
\<close>

theorem confirm_failed_backoff:
  "MAX_SUBSCRIPTION_CONFIRM_FAILURES = 10 \<and>
   (confirm_failures s \<ge> max_failures \<longrightarrow>
      confirm_failed k s max_failures retry_period now stamp db = (s, db_delete k db) \<and>
      db_get (snd (confirm_failed k s max_failures retry_period now stamp db)) k = None) \<and>
   (confirm_failures s < max_failures \<longrightarrow>
      confirm_failed k s max_failures retry_period now stamp db =
        (s\<lparr>sub_eta := now + retry_period * 2 ^ confirm_failures s,
           confirm_failures := confirm_failures s + 1\<rparr>,
         db_put k (s\<lparr>sub_eta := now + retry_period * 2 ^ confirm_failures s,
                     confirm_failures := confirm_failures s + 1,
                     sub_last_modified := stamp\<rparr>) db) \<and>
      db_get (snd (confirm_failed k s max_failures retry_period now stamp db)) k =
        Some ((fst (confirm_failed k s max_failures retry_period now stamp db))
                \<lparr>sub_last_modified := stamp\<rparr>))"
  by (simp add: confirm_failed_def sub_put_def Let_def db_get_put db_get_delete
        MAX_SUBSCRIPTION_CONFIRM_FAILURES_def)

text \<open>
  The first failure of a fresh Subscription at time 1000 sets \<open>eta\<close> to
  \<open>1000 + 300 * 2 ^ 0\<close>; the failure of one that has failed 10 times deletes it.
\<close>

theorem confirm_failed_backoff_witness:
  "confirm_failed ''k'' example_subscription MAX_SUBSCRIPTION_CONFIRM_FAILURES
      SUBSCRIPTION_RETRY_PERIOD 1000 1001 [(''k'', example_subscription)] =
     (example_subscription\<lparr>sub_eta := 1300, confirm_failures := 1\<rparr>,
      [(''k'', example_subscription\<lparr>sub_eta := 1300, confirm_failures := 1,
                                     sub_last_modified := 1001\<rparr>)])
   \<and> confirm_failed ''k'' (example_subscription\<lparr>confirm_failures := 10\<rparr>)
        MAX_SUBSCRIPTION_CONFIRM_FAILURES SUBSCRIPTION_RETRY_PERIOD 1000 1001
        [(''k'', example_subscription\<lparr>confirm_failures := 10\<rparr>)] =
     (example_subscription\<lparr>confirm_failures := 10\<rparr>, [])"
proof -
  have c0: "confirm_failures example_subscription < MAX_SUBSCRIPTION_CONFIRM_FAILURES"
    by (simp add: example_subscription_def MAX_SUBSCRIPTION_CONFIRM_FAILURES_def)
  have c10: "confirm_failures (example_subscription\<lparr>confirm_failures := 10\<rparr>)
      \<ge> MAX_SUBSCRIPTION_CONFIRM_FAILURES"
    by (simp add: MAX_SUBSCRIPTION_CONFIRM_FAILURES_def)
  have p: "db_put ''k'' e [(''k'', e')] = [(''k'', e)]" for e e' :: subscription
    by (simp add: db_put_def)
  have d: "db_delete ''k'' [(''k'', e')] = []" for e' :: subscription
    by (simp add: db_delete_def)
  have e0: "confirm_failures example_subscription = 0"
    by (simp add: example_subscription_def)
  from confirm_failed_backoff [where s = example_subscription
      and max_failures = MAX_SUBSCRIPTION_CONFIRM_FAILURES and k = "''k''"
      and retry_period = SUBSCRIPTION_RETRY_PERIOD and now = 1000 and stamp = 1001
      and db = "[(''k'', example_subscription)]", THEN conjunct2] c0
  have a: "confirm_failed ''k'' example_subscription MAX_SUBSCRIPTION_CONFIRM_FAILURES
      SUBSCRIPTION_RETRY_PERIOD 1000 1001 [(''k'', example_subscription)] =
     (example_subscription\<lparr>sub_eta := 1300, confirm_failures := 1\<rparr>,
      [(''k'', example_subscription\<lparr>sub_eta := 1300, confirm_failures := 1,
                                     sub_last_modified := 1001\<rparr>)])"
    by (simp add: p e0 SUBSCRIPTION_RETRY_PERIOD_def)
  from confirm_failed_backoff [where s = "example_subscription\<lparr>confirm_failures := 10\<rparr>"
      and max_failures = MAX_SUBSCRIPTION_CONFIRM_FAILURES and k = "''k''"
      and retry_period = SUBSCRIPTION_RETRY_PERIOD and now = 1000 and stamp = 1001
      and db = "[(''k'', example_subscription\<lparr>confirm_failures := 10\<rparr>)]", THEN conjunct2] c10
  have b: "confirm_failed ''k'' (example_subscription\<lparr>confirm_failures := 10\<rparr>)
        MAX_SUBSCRIPTION_CONFIRM_FAILURES SUBSCRIPTION_RETRY_PERIOD 1000 1001
        [(''k'', example_subscription\<lparr>confirm_failures := 10\<rparr>)] =
     (example_subscription\<lparr>confirm_failures := 10\<rparr>, [])"
    by (simp add: d)
  from a b show ?thesis by simp
qed

text \<open>
  C4 as stated takes the incremented counter as the exponent: after the first failure
  at time 1000 that would be \<open>eta = 1000 + 300 * 2 ^ 1\<close>, and the code sets 1300.
\<close>

theorem confirm_failed_exponent_counterexample:
  "\<not> (sub_eta (fst (confirm_failed ''k'' example_subscription MAX_SUBSCRIPTION_CONFIRM_FAILURES
                     SUBSCRIPTION_RETRY_PERIOD 1000 1001 [(''k'', example_subscription)])) =
       1000 + SUBSCRIPTION_RETRY_PERIOD *
         2 ^ confirm_failures (fst (confirm_failed ''k'' example_subscription
               MAX_SUBSCRIPTION_CONFIRM_FAILURES SUBSCRIPTION_RETRY_PERIOD 1000 1001
               [(''k'', example_subscription)])))"
  by (simp add: confirm_failed_def sub_put_def Let_def example_subscription_def
        MAX_SUBSCRIPTION_CONFIRM_FAILURES_def SUBSCRIPTION_RETRY_PERIOD_def)

subsection \<open>Subscription.request_insert\<close>

text \<open>
  C7. When a Subscription is stored under the key of (callback, topic), whatever its
  state, \<open>request_insert\<close> returns False and the table is the one it was given: no
  entity, and no property of this one, has changed. When none is stored, it returns
  True and the table has one more row, under that key: a Subscription in the state
  \<open>STATE_NOT_VERIFIED\<close> with the given \<open>verify_token\<close>, callback and topic.
\<close>

theorem request_insert_existing_untouched:
  "(db_get db (create_key_name sha cb tp) = Some sub \<longrightarrow>
      request_insert sha cb tp token now stamp db = (False, db)) \<and>
   (db_get db (create_key_name sha cb tp) = None \<longrightarrow>
      (\<exists>new. request_insert sha cb tp token now stamp db =
                (True, db_put (create_key_name sha cb tp) new db)
            \<and> db_get (snd (request_insert sha cb tp token now stamp db))
                  (create_key_name sha cb tp) = Some new
            \<and> subscription_state new = STATE_NOT_VERIFIED
            \<and> verify_token new = Some token
            \<and> callback new = cb \<and> sub_topic new = tp
            \<and> confirm_failures new = 0
            \<and> expiration_time new = now + EXPIRATION_DELTA))"
  by (simp add: request_insert_def sub_put_def Let_def db_get_put)

text \<open>
  A verified Subscription stays as it is, and a second request with another token on
  an empty table creates the pending one.
\<close>

theorem request_insert_existing_untouched_witness:
  "request_insert (\<lambda>v. v) ''cb'' ''tp'' ''tok2'' 5 6
      [(create_key_name (\<lambda>v. v) ''cb'' ''tp'',
        example_subscription\<lparr>subscription_state := STATE_VERIFIED\<rparr>)] =
     (False, [(create_key_name (\<lambda>v. v) ''cb'' ''tp'',
               example_subscription\<lparr>subscription_state := STATE_VERIFIED\<rparr>)])
   \<and> fst (request_insert (\<lambda>v. v) ''cb'' ''tp'' ''tok2'' 5 6 []) = True
   \<and> map_option subscription_state
        (db_get (snd (request_insert (\<lambda>v. v) ''cb'' ''tp'' ''tok2'' 5 6 []))
           (create_key_name (\<lambda>v. v) ''cb'' ''tp'')) = Some STATE_NOT_VERIFIED"
proof -
  let ?k = "create_key_name (\<lambda>v. v) ''cb'' ''tp''"
  let ?s = "example_subscription\<lparr>subscription_state := STATE_VERIFIED\<rparr>"
  have g: "db_get [(?k, ?s)] ?k = Some ?s"
    by (simp add: db_get_def)
  have n: "db_get ([] :: (string, subscription) table) ?k = None"
    by (simp add: db_get_def)
  from request_insert_existing_untouched [where db = "[(?k, ?s)]" and sha = "\<lambda>v. v"
      and cb = "''cb''" and tp = "''tp''" and sub = ?s and token = "''tok2''"
      and now = 5 and stamp = 6, THEN conjunct1] g
  have a: "request_insert (\<lambda>v. v) ''cb'' ''tp'' ''tok2'' 5 6 [(?k, ?s)] = (False, [(?k, ?s)])"
    by simp
  from request_insert_existing_untouched [where db = "[] :: (string, subscription) table" and sha = "\<lambda>v. v"
      and cb = "''cb''" and tp = "''tp''" and token = "''tok2''"
      and now = 5 and stamp = 6, THEN conjunct2] n
  obtain new where
    "request_insert (\<lambda>v. v) ''cb'' ''tp'' ''tok2'' 5 6 ([] :: (string, subscription) table) =
       (True, db_put ?k new [])"
    "db_get (snd (request_insert (\<lambda>v. v) ''cb'' ''tp'' ''tok2'' 5 6 [])) ?k = Some new"
    "subscription_state new = STATE_NOT_VERIFIED"
    by blast
  then have b: "fst (request_insert (\<lambda>v. v) ''cb'' ''tp'' ''tok2'' 5 6 []) = True"
    and c: "map_option subscription_state
        (db_get (snd (request_insert (\<lambda>v. v) ''cb'' ''tp'' ''tok2'' 5 6 [])) ?k)
        = Some STATE_NOT_VERIFIED"
    by simp_all
  from a b c show ?thesis by blast
qed

subsection \<open>PollingMarker.should_progress\<close>

text \<open>
  C9, as the code has it. When \<open>next_start\<close> is in the past, \<open>should_progress\<close> sets
  \<open>next_start\<close> to \<open>now + period\<close> (\<open>POLLING_BOOTSTRAP_PERIOD\<close> by default), leaves
  \<open>current_key\<close> as it is and reports that polling should progress; otherwise it
  leaves the marker unchanged and reports progress exactly when \<open>current_key\<close> is
  neither null nor the empty string.
\<close>

theorem should_progress_cases:
  "(next_start m < now \<longrightarrow>
      should_progress m period now = (True, m\<lparr>next_start := now + period\<rparr>)) \<and>
   (\<not> next_start m < now \<longrightarrow>
      should_progress m period now =
        (current_key m \<noteq> None \<and> current_key m \<noteq> Some [], m)) \<and>
   current_key (snd (should_progress m period now)) = current_key m"
  by (simp add: should_progress_def Let_def)

theorem should_progress_cases_witness:
  "should_progress example_marker POLLING_BOOTSTRAP_PERIOD 2000 =
     (True, \<lparr>next_start = 12800, current_key = Some ''agVLbm93bg''\<rparr>)
   \<and> should_progress example_marker POLLING_BOOTSTRAP_PERIOD 500 = (True, example_marker)
   \<and> should_progress (example_marker\<lparr>current_key := None\<rparr>) POLLING_BOOTSTRAP_PERIOD 500 =
       (False, example_marker\<lparr>current_key := None\<rparr>)"
  using should_progress_cases [where m = example_marker and now = 2000
      and period = POLLING_BOOTSTRAP_PERIOD]
    should_progress_cases [where m = example_marker and now = 500
      and period = POLLING_BOOTSTRAP_PERIOD]
    should_progress_cases [where m = "example_marker\<lparr>current_key := None\<rparr>" and now = 500
      and period = POLLING_BOOTSTRAP_PERIOD]
  by (simp add: example_marker_def POLLING_BOOTSTRAP_PERIOD_def)

text \<open>
  C9 as stated has the new cycle clear \<open>current_key\<close>: a marker whose cursor is set and
  whose \<open>next_start\<close> has passed keeps its cursor.
\<close>

theorem should_progress_clears_key_counterexample:
  "\<not> (current_key (snd (should_progress example_marker POLLING_BOOTSTRAP_PERIOD 2000)) = None)"
  by (simp add: should_progress_def example_marker_def)

subsection \<open>EventToDeliver.update\<close>

lemma sort_key_eq_Nil: "sort_key f xs = [] \<longleftrightarrow> xs = []"
  by (metis length_sort list.size(3) length_0_conv)

text \<open>
  C1. After \<open>update\<close>, the event is deleted exactly when \<open>more_callbacks\<close> is false and
  the list of failed callbacks, the keys of \<open>more_failed_callbacks\<close> appended, is empty:
  then the table is the old one with the event's row deleted (and Memcache is not
  touched). In every other case the table is the old one with the updated event put
  under its key.
\<close>

theorem update_deletes_iff_done:
  "(db_get (fst (snd (update key self more_cb mf now max_failures retry_period db mc))) key = None
      \<longleftrightarrow> \<not> more_cb \<and> failed_callbacks self @ map fst mf = []) \<and>
   (\<not> more_cb \<and> failed_callbacks self @ map fst mf = [] \<longrightarrow>
      snd (update key self more_cb mf now max_failures retry_period db mc) = (db_delete key db, mc)) \<and>
   (\<not> (\<not> more_cb \<and> failed_callbacks self @ map fst mf = []) \<longrightarrow>
      fst (snd (update key self more_cb mf now max_failures retry_period db mc)) =
        db_put key (fst (update key self more_cb mf now max_failures retry_period db mc)) db \<and>
      db_get (fst (snd (update key self more_cb mf now max_failures retry_period db mc))) key =
        Some (fst (update key self more_cb mf now max_failures retry_period db mc)) \<and>
      failed_callbacks (fst (update key self more_cb mf now max_failures retry_period db mc)) =
        failed_callbacks self @ map fst (sort_key (\<lambda>x. callback_hash (snd x)) mf))"
  by (simp add: update_def Let_def db_get_put db_get_delete sort_key_eq_Nil)

theorem update_deletes_iff_done_witness:
  "fst (snd (update ''e1'' example_event False [] 100 MAX_DELIVERY_FAILURES DELIVERY_RETRY_PERIOD
              [(''e1'', example_event)] example_memcache)) = []
   \<and> map_option retry_attempts
       (db_get (fst (snd (update ''e1'' example_event False [(''s1'', example_subscription)] 100
                       MAX_DELIVERY_FAILURES DELIVERY_RETRY_PERIOD
                       [(''e1'', example_event)] example_memcache))) ''e1'') = Some 1
   \<and> map_option failed_callbacks
       (db_get (fst (snd (update ''e1'' example_event True [] 100
                       MAX_DELIVERY_FAILURES DELIVERY_RETRY_PERIOD
                       [(''e1'', example_event)] example_memcache))) ''e1'') = Some []"
proof -
  have fc: "failed_callbacks example_event = []"
    by (simp add: example_event_def)
  have d: "db_delete ''e1'' [(''e1'', example_event)] = []"
    by (simp add: db_delete_def)
  have a: "fst (snd (update ''e1'' example_event False [] 100 MAX_DELIVERY_FAILURES
      DELIVERY_RETRY_PERIOD [(''e1'', example_event)] example_memcache)) = []"
    using update_deletes_iff_done [where key = "''e1''" and self = example_event
        and more_cb = False and mf = "[]" and now = 100 and max_failures = MAX_DELIVERY_FAILURES
        and retry_period = DELIVERY_RETRY_PERIOD and db = "[(''e1'', example_event)]"
        and mc = example_memcache] fc d
    by simp
  have b: "map_option retry_attempts
       (db_get (fst (snd (update ''e1'' example_event False [(''s1'', example_subscription)] 100
                       MAX_DELIVERY_FAILURES DELIVERY_RETRY_PERIOD
                       [(''e1'', example_event)] example_memcache))) ''e1'') = Some 1"
    using update_deletes_iff_done [where key = "''e1''" and self = example_event
        and more_cb = False and mf = "[(''s1'', example_subscription)]" and now = 100
        and max_failures = MAX_DELIVERY_FAILURES
        and retry_period = DELIVERY_RETRY_PERIOD and db = "[(''e1'', example_event)]"
        and mc = example_memcache]
    by (simp add: update_def Let_def example_event_def MAX_DELIVERY_FAILURES_def)
  have c: "map_option failed_callbacks
       (db_get (fst (snd (update ''e1'' example_event True [] 100
                       MAX_DELIVERY_FAILURES DELIVERY_RETRY_PERIOD
                       [(''e1'', example_event)] example_memcache))) ''e1'') = Some []"
    using update_deletes_iff_done [where key = "''e1''" and self = example_event
        and more_cb = True and mf = "[]" and now = 100
        and max_failures = MAX_DELIVERY_FAILURES
        and retry_period = DELIVERY_RETRY_PERIOD and db = "[(''e1'', example_event)]"
        and mc = example_memcache] fc
    by (simp add: db_get_put)
  from a b c show ?thesis by blast
qed

subsection \<open>Dictionaries, sampling and lookups\<close>

lemma set_db_put: "set (db_put k v al) \<subseteq> insert (k, v) (set al)"
  unfolding db_put_def by (induction al) auto

lemma fst_set_db_put: "fst ` set (db_put k v al) = insert k (fst ` set al)"
  unfolding db_put_def by (simp add: dom_update)

lemma set_fold_put:
  "set (fold (\<lambda>(k, v). db_put k v) ps acc) \<subseteq> set ps \<union> set acc"
proof (induction ps arbitrary: acc)
  case Nil
  then show ?case by simp
next
  case (Cons p ps)
  obtain k v where p: "p = (k, v)" by (cases p)
  have "set (fold (\<lambda>(k, v). db_put k v) ps (db_put k v acc)) \<subseteq> set ps \<union> set (db_put k v acc)"
    by (rule Cons.IH)
  also have "\<dots> \<subseteq> set ps \<union> insert (k, v) (set acc)"
    using set_db_put [of k v acc] by blast
  finally show ?case by (auto simp: p)
qed

lemma set_dict_of: "set (dict_of ps) \<subseteq> set ps"
  using set_fold_put [of ps "[]"] by (simp add: dict_of_def)

lemma set_draw: "set (draw rs xs k) \<subseteq> set xs"
proof (induction k arbitrary: rs xs)
  case 0
  then show ?case by simp
next
  case (Suc k)
  show ?case
  proof (cases "xs = []")
    case True
    then show ?thesis by simp
  next
    case False
    define i where "i = (case rs of [] \<Rightarrow> 0 | r # _ \<Rightarrow> r) mod length xs"
    have i: "i < length xs" using False by (simp add: i_def)
    have "set (draw (tl rs) (take i xs @ drop (Suc i) xs) k) \<subseteq> set (take i xs @ drop (Suc i) xs)"
      by (rule Suc.IH)
    also have "\<dots> \<subseteq> set xs"
      by (auto dest: in_set_takeD in_set_dropD)
    finally show ?thesis
      using False i by (simp add: i_def [symmetric] Let_def)
  qed
qed

lemma random_sample_cases:
  "k \<le> length xs \<Longrightarrow> random_sample rs xs k = Inr (draw rs xs k)"
  by (simp add: random_sample_def)

lemma lookup_all_Some:
  "set ks \<subseteq> fst ` set d \<Longrightarrow>
   \<exists>vs. lookup_all d ks = Some vs \<and> length vs = length ks \<and> set vs \<subseteq> snd ` set d"
proof (induction ks)
  case Nil
  then show ?case by simp
next
  case (Cons k ks)
  from Cons.prems have "k \<in> fst ` set d" by simp
  then obtain v where v: "map_of d k = Some v"
    by (metis domD dom_map_of_conv_image_fst)
  then have vd: "v \<in> snd ` set d"
    by (metis map_of_SomeD snd_conv image_eqI)
  from Cons obtain vs where "lookup_all d ks = Some vs" "length vs = length ks"
    "set vs \<subseteq> snd ` set d" by auto
  with v vd show ?case by (simp add: db_get_def)
qed

lemma fst_set_fold_put:
  "fst ` set (fold (\<lambda>(k, v). db_put k v) ps acc) = fst ` set ps \<union> fst ` set acc"
proof (induction ps arbitrary: acc)
  case Nil
  then show ?case by simp
next
  case (Cons p ps)
  obtain k v where p: "p = (k, v)" by (cases p)
  show ?case
    by (auto simp: p Cons.IH fst_set_db_put)
qed

lemma fst_set_dict_of: "fst ` set (dict_of ps) = fst ` set ps"
  using fst_set_fold_put [of ps "[]"] by (simp add: dict_of_def)

lemma keys_try_lock_map: "set (map fst (qo_try_lock_map work_map)) = set (map fst work_map)"
  by (simp add: qo_try_lock_map_def fst_set_dict_of image_image)

subsection \<open>query_and_own\<close>

lemma qo_own_result:
  "\<exists>w mc'. qo_own work_map lease work_count mc = Inr (w, mc') \<and>
     (work_count = 1 \<longrightarrow> w = No_work \<or> (\<exists>e. w = One_work e \<and> e \<in> snd ` set work_map)) \<and>
     (work_count \<noteq> 1 \<longrightarrow>
        (\<exists>ws. w = Work_list ws \<and> length ws \<le> work_count \<and> set ws \<subseteq> snd ` set work_map))"
proof -
  obtain not_set_keys mc1 where am: "add_multi (qo_try_lock_map work_map) lease mc = (not_set_keys, mc1)"
    by (cases "add_multi (qo_try_lock_map work_map) lease mc")
  define locked_keys where "locked_keys = filter (\<lambda>k. k \<notin> set not_set_keys) (map fst work_map)"
  define mc2 where "mc2 = (if drop work_count locked_keys \<noteq> []
    then snd (delete_multi (drop work_count locked_keys) mc1) else mc1)"
  have "set (take work_count locked_keys) \<subseteq> fst ` set work_map"
    by (auto simp: locked_keys_def dest!: in_set_takeD)
  from lookup_all_Some [OF this]
  obtain ws where ws: "lookup_all work_map (take work_count locked_keys) = Some ws"
    "length ws = length (take work_count locked_keys)" "set ws \<subseteq> snd ` set work_map"
    by blast
  from ws(2) have len: "length ws \<le> work_count" by simp
  have q: "qo_own work_map lease work_count mc =
     (if work_count = 1
      then (case ws of [] \<Rightarrow> Inr (No_work, mc2) | w # _ \<Rightarrow> Inr (One_work w, mc2))
      else Inr (Work_list ws, mc2))"
    unfolding qo_own_def Let_def am prod.case locked_keys_def [symmetric] ws(1) option.case
      mc2_def [symmetric] ..
  show ?thesis
  proof (cases "work_count = 1")
    case True
    show ?thesis
    proof (cases ws)
      case Nil
      with True q show ?thesis by simp
    next
      case (Cons w ws')
      with ws(3) have "w \<in> snd ` set work_map" by simp
      with True q Cons show ?thesis by simp
    qed
  next
    case False
    with q len ws(3) show ?thesis by simp
  qed
qed

lemma query_and_own_result:
  "\<exists>w mc'. query_and_own kstr qr lease work_count sample_ratio lock_ratio rs mc = Inr (w, mc') \<and>
     (work_count = 1 \<longrightarrow> w = No_work \<or> (\<exists>e. w = One_work e \<and> e \<in> set qr)) \<and>
     (work_count \<noteq> 1 \<longrightarrow>
        (\<exists>ws. w = Work_list ws \<and> length ws \<le> work_count \<and> set ws \<subseteq> set qr))"
proof (cases "qo_work_to_do qr work_count sample_ratio = []")
  case True
  then show ?thesis by (simp add: query_and_own_def)
next
  case False
  define work_to_do where "work_to_do = qo_work_to_do qr work_count sample_ratio"
  define possible_work where
    "possible_work = draw rs work_to_do (min (length work_to_do) (lock_ratio * work_count))"
  define work_map where "work_map = qo_work_map kstr possible_work"
  have rs: "random_sample rs work_to_do (min (length work_to_do) (lock_ratio * work_count)) =
      Inr possible_work"
    by (simp add: possible_work_def random_sample_cases)
  have "snd ` set work_map \<subseteq> set possible_work"
    using set_dict_of [of "map (\<lambda>w. (kstr w, w)) possible_work"]
    by (auto simp: qo_work_map_def work_map_def)
  also have "\<dots> \<subseteq> set work_to_do"
    by (simp add: possible_work_def set_draw)
  also have "\<dots> \<subseteq> set qr"
    by (auto simp: work_to_do_def qo_work_to_do_def dest: in_set_takeD)
  finally have sub: "snd ` set work_map \<subseteq> set qr" .
  from False have ne: "work_to_do \<noteq> []" by (simp add: work_to_do_def)
  have q: "query_and_own kstr qr lease work_count sample_ratio lock_ratio rs mc =
      qo_own work_map lease work_count mc"
    unfolding query_and_own_def work_to_do_def [symmetric] Let_def work_map_def
    using ne rs by simp
  obtain w mc' where r: "qo_own work_map lease work_count mc = Inr (w, mc')"
    and one: "work_count = 1 \<Longrightarrow> w = No_work \<or> (\<exists>e. w = One_work e \<and> e \<in> snd ` set work_map)"
    and many: "work_count \<noteq> 1 \<Longrightarrow>
        \<exists>ws. w = Work_list ws \<and> length ws \<le> work_count \<and> set ws \<subseteq> snd ` set work_map"
    using qo_own_result [of work_map lease work_count mc] by blast
  have one': "w = No_work \<or> (\<exists>e. w = One_work e \<and> e \<in> set qr)" if "work_count = 1"
    using one [OF that] sub by auto
  have many': "\<exists>ws. w = Work_list ws \<and> length ws \<le> work_count \<and> set ws \<subseteq> set qr"
    if "work_count \<noteq> 1"
  proof -
    from many [OF that] obtain ws where "w = Work_list ws" "length ws \<le> work_count"
      "set ws \<subseteq> snd ` set work_map" by blast
    with sub show ?thesis by (intro exI [of _ ws]) auto
  qed
  show ?thesis
    unfolding q r using one' many' by simp
qed

text \<open>
  C10. With \<open>work_count = 1\<close> the result is \<open>None\<close> or a single instance, never a list;
  with \<open>work_count > 1\<close> it is a list of at most \<open>work_count\<close> instances; the instances
  are rows of the query, and the function does not raise. When the fetch of
  \<open>work_count * sample_ratio\<close> rows returns nothing, the result is \<open>None\<close> or the empty
  list and Memcache is as it was, its record of calls included: no lock operation was
  attempted.
\<close>

theorem query_and_own_result_shape:
  "(work_count = 1 \<longrightarrow>
      (\<exists>mc'. query_and_own kstr qr lease work_count sample_ratio lock_ratio rs mc =
               Inr (No_work, mc')) \<or>
      (\<exists>e mc'. query_and_own kstr qr lease work_count sample_ratio lock_ratio rs mc =
               Inr (One_work e, mc') \<and> e \<in> set qr)) \<and>
   (work_count > 1 \<longrightarrow>
      (\<exists>ws mc'. query_and_own kstr qr lease work_count sample_ratio lock_ratio rs mc =
               Inr (Work_list ws, mc') \<and> length ws \<le> work_count \<and> set ws \<subseteq> set qr)) \<and>
   (take (work_count * sample_ratio) qr = [] \<longrightarrow>
      query_and_own kstr qr lease work_count sample_ratio lock_ratio rs mc =
        Inr (if work_count = 1 then No_work else Work_list [], mc))"
proof (intro conjI impI)
  assume "work_count = 1"
  with query_and_own_result [of kstr qr lease work_count sample_ratio lock_ratio rs mc]
  show "(\<exists>mc'. query_and_own kstr qr lease work_count sample_ratio lock_ratio rs mc =
               Inr (No_work, mc')) \<or>
      (\<exists>e mc'. query_and_own kstr qr lease work_count sample_ratio lock_ratio rs mc =
               Inr (One_work e, mc') \<and> e \<in> set qr)"
    by auto
next
  assume "work_count > 1"
  then have "work_count \<noteq> 1" by simp
  with query_and_own_result [of kstr qr lease work_count sample_ratio lock_ratio rs mc]
  show "\<exists>ws mc'. query_and_own kstr qr lease work_count sample_ratio lock_ratio rs mc =
               Inr (Work_list ws, mc') \<and> length ws \<le> work_count \<and> set ws \<subseteq> set qr"
    by auto
next
  assume "take (work_count * sample_ratio) qr = []"
  then show "query_and_own kstr qr lease work_count sample_ratio lock_ratio rs mc =
        Inr (if work_count = 1 then No_work else Work_list [], mc)"
    by (simp add: query_and_own_def qo_work_to_do_def)
qed

text \<open>
  No FeedToFetch is ready: a worker asking for one item gets \<open>None\<close>, one asking for
  two gets the empty list, and Memcache has seen no call. With two rows ready and the
  random draw 1, the worker asking for one item owns the second row.
\<close>

theorem query_and_own_result_shape_witness:
  "query_and_own (\<lambda>w. w) ([] :: string list) LEASE_PERIOD_SECONDS 1 20 4 [] example_memcache =
     Inr (No_work, example_memcache)
   \<and> query_and_own (\<lambda>w. w) ([] :: string list) LEASE_PERIOD_SECONDS 2 20 4 [] example_memcache =
     Inr (Work_list [], example_memcache)
   \<and> (\<exists>mc'. query_and_own (\<lambda>w. w) [''a'', ''b''] LEASE_PERIOD_SECONDS 1 20 1 [1] example_memcache =
     Inr (One_work ''b'', mc'))"
proof -
  have a: "query_and_own (\<lambda>w. w) ([] :: string list) LEASE_PERIOD_SECONDS 1 20 4 []
      example_memcache = Inr (No_work, example_memcache)"
    using query_and_own_result_shape [where kstr = "\<lambda>w. w" and qr = "[] :: string list"
        and lease = LEASE_PERIOD_SECONDS and work_count = 1 and sample_ratio = 20
        and lock_ratio = 4 and rs = "[]" and mc = example_memcache]
    by simp
  have b: "query_and_own (\<lambda>w. w) ([] :: string list) LEASE_PERIOD_SECONDS 2 20 4 []
      example_memcache = Inr (Work_list [], example_memcache)"
    using query_and_own_result_shape [where kstr = "\<lambda>w. w" and qr = "[] :: string list"
        and lease = LEASE_PERIOD_SECONDS and work_count = 2 and sample_ratio = 20
        and lock_ratio = 4 and rs = "[]" and mc = example_memcache]
    by simp
  have c: "\<exists>mc'. query_and_own (\<lambda>w. w) [''a'', ''b''] LEASE_PERIOD_SECONDS 1 20 1 [1]
      example_memcache = Inr (One_work ''b'', mc')"
    by (simp add: query_and_own_def qo_work_to_do_def random_sample_def qo_work_map_def
          dict_of_def db_put_def qo_own_def qo_try_lock_map_def add_multi_def db_get_def
          delete_multi_def Let_def example_memcache_def)
  from a b c show ?thesis by blast
qed

text \<open>
  C2. When locks were attempted and Memcache set none of them (the keys it did not set
  are the keys that were tried), the result is \<open>None\<close> for \<open>work_count = 1\<close> and the empty
  list otherwise. The only state the function has is Memcache (the rows of the query
  are read, the Datastore is not written): its entries are the ones before the call,
  and the one call made is the \<open>add_multi\<close> of the tried keys.
\<close>

theorem query_and_own_all_collide:
  assumes "work_to_do = qo_work_to_do qr work_count sample_ratio"
    and "work_to_do \<noteq> []"
    and "random_sample rs work_to_do (min (length work_to_do) (lock_ratio * work_count)) =
           Inr possible_work"
    and "try_lock_map = qo_try_lock_map (qo_work_map kstr possible_work)"
    and "set (fst (add_multi try_lock_map lease mc)) = set (map fst try_lock_map)"
  shows "\<exists>mc'. query_and_own kstr qr lease work_count sample_ratio lock_ratio rs mc =
           Inr (if work_count = 1 then No_work else Work_list [], mc')
         \<and> entries mc' = entries mc
         \<and> calls mc' = calls mc @ [Add_multi (map fst try_lock_map) lease]"
proof -
  define work_map where "work_map = qo_work_map kstr possible_work"
  obtain not_set_keys mc1 where am: "add_multi try_lock_map lease mc = (not_set_keys, mc1)"
    by (cases "add_multi try_lock_map lease mc")
  from assms(5) am have ns: "set not_set_keys = set (map fst try_lock_map)" by simp
  have keys: "set (map fst try_lock_map) = set (map fst work_map)"
    unfolding assms(4) work_map_def by (rule keys_try_lock_map)
  have locked: "filter (\<lambda>k. k \<notin> set not_set_keys) (map fst work_map) = []"
    using ns keys by (auto simp: filter_empty_conv)
  have present: "db_get (entries mc) k \<noteq> None" if "k \<in> set (map fst try_lock_map)" for k
  proof -
    from that ns have "k \<in> set not_set_keys" by simp
    with am show ?thesis by (auto simp: add_multi_def Let_def)
  qed
  have added: "filter (\<lambda>(k, v). db_get (entries mc) k = None) try_lock_map = []"
    using present by (force simp: filter_empty_conv)
  from am have mc1: "mc1 = mc\<lparr>calls := calls mc @ [Add_multi (map fst try_lock_map) lease]\<rparr>"
    by (simp add: add_multi_def Let_def added)
  have own: "qo_own work_map lease work_count mc =
      Inr (if work_count = 1 then No_work else Work_list [], mc1)"
    unfolding qo_own_def Let_def work_map_def assms(4) [symmetric] am prod.case
    unfolding work_map_def [symmetric] locked
    by simp
  have "query_and_own kstr qr lease work_count sample_ratio lock_ratio rs mc =
      qo_own work_map lease work_count mc"
    unfolding query_and_own_def assms(1) [symmetric] Let_def work_map_def
    using assms(2,3) by simp
  with own mc1 show ?thesis by simp
qed

text \<open>
  The one ready row is locked by another worker: nothing is returned and the lock of
  the other worker stays.
\<close>

theorem query_and_own_all_collide_witness:
  "\<exists>mc'. query_and_own (\<lambda>w. w) [''a''] LEASE_PERIOD_SECONDS 1 20 4 []
            \<lparr>entries = [(''a'', ''owned'')], calls = []\<rparr> = Inr (No_work, mc')
         \<and> entries mc' = [(''a'', ''owned'')]
         \<and> calls mc' = [Add_multi [''a''] LEASE_PERIOD_SECONDS]"
proof -
  let ?mc = "\<lparr>entries = [(''a'', ''owned'')], calls = []\<rparr>"
  have 1: "[''a''] = qo_work_to_do [''a''] 1 20"
    by (simp add: qo_work_to_do_def)
  have 2: "[''a''] \<noteq> ([] :: string list)" by simp
  have 3: "random_sample [] [''a''] (min (length [''a'']) (4 * 1)) = Inr [''a'']"
    by (simp add: random_sample_def)
  have 4: "[(''a'', ''owned'')] = qo_try_lock_map (qo_work_map (\<lambda>w. w) [''a''])"
    by (simp add: qo_try_lock_map_def qo_work_map_def dict_of_def db_put_def)
  have 5: "set (fst (add_multi [(''a'', ''owned'')] LEASE_PERIOD_SECONDS ?mc)) =
      set (map fst [(''a'', ''owned'')])"
    by (simp add: add_multi_def db_get_def)
  from query_and_own_all_collide [OF 1 2 3 4 5]
  show ?thesis by simp
qed

subsection \<open>FeedToFetch.fetch_failed and get_work\<close>

lemma fetch_failed_below:
  "fetching_failures f < max_failures \<Longrightarrow>
   fetch_failed k f max_failures rp now db =
     (f\<lparr>ftf_eta := now + rp * 2 ^ fetching_failures f,
        fetching_failures := fetching_failures f + 1\<rparr>,
      db_put k (f\<lparr>ftf_eta := now + rp * 2 ^ fetching_failures f,
                  fetching_failures := fetching_failures f + 1\<rparr>) db)"
  by (simp add: fetch_failed_def Let_def)

lemma fetch_failed_at_cap:
  "fetching_failures f \<ge> max_failures \<Longrightarrow>
   fetch_failed k f max_failures rp now db =
     (f\<lparr>ftf_totally_failed := True\<rparr>, db_put k (f\<lparr>ftf_totally_failed := True\<rparr>) db)"
  by (simp add: fetch_failed_def Let_def)

lemma fetch_failed_stored:
  "db_get (snd (fetch_failed k f max_failures rp now db)) k =
     Some (fst (fetch_failed k f max_failures rp now db))"
  by (simp add: fetch_failed_def Let_def db_get_put)

lemma fetch_failures_append:
  "fetch_failures k (xs @ ys) st = fetch_failures k ys (fetch_failures k xs st)"
proof (induction xs arbitrary: st)
  case Nil
  then show ?case by simp
next
  case (Cons x xs)
  then show ?case by (cases st) simp
qed

lemma fetch_failures_below_cap:
  "fetching_failures f + length nows \<le> MAX_FEED_PULL_FAILURES \<Longrightarrow>
   fetching_failures (fst (fetch_failures k nows (f, db))) = fetching_failures f + length nows \<and>
   ftf_totally_failed (fst (fetch_failures k nows (f, db))) = ftf_totally_failed f"
proof (induction nows arbitrary: f db)
  case Nil
  then show ?case by simp
next
  case (Cons now nows)
  let ?f = "f\<lparr>ftf_eta := now + FEED_PULL_RETRY_PERIOD * 2 ^ fetching_failures f,
               fetching_failures := fetching_failures f + 1\<rparr>"
  from Cons.prems have lt: "fetching_failures f < MAX_FEED_PULL_FAILURES" by simp
  from Cons.prems have "fetching_failures ?f + length nows \<le> MAX_FEED_PULL_FAILURES" by simp
  from Cons.IH [OF this, of "db_put k ?f db"] show ?case
    by (simp add: fetch_failed_below [OF lt])
qed

text \<open>
  C5. \<open>fetch_failed\<close> with the counter below the cap increments \<open>fetching_failures\<close>
  and sets \<open>eta\<close> to \<open>now + retry_period * 2 ^ c\<close>, \<open>c\<close> the counter before the
  increment; with the counter at the cap (\<open>MAX_FEED_PULL_FAILURES = 9\<close> by default) it
  sets \<open>totally_failed\<close>; in both cases the record is put. Over consecutive failures
  of a work item that starts at zero, \<open>totally_failed\<close> is false after each of the
  first nine and true after the tenth. \<open>get_work\<close> does not raise, and what it returns
  is \<open>None\<close> or a row of the table that is due and whose \<open>totally_failed\<close> is false.
\<close>

theorem fetch_failed_backoff:
  "MAX_FEED_PULL_FAILURES = 9 \<and>
   (fetching_failures f < max_failures \<longrightarrow>
      fetch_failed k f max_failures rp now db =
        (f\<lparr>ftf_eta := now + rp * 2 ^ fetching_failures f,
           fetching_failures := fetching_failures f + 1\<rparr>,
         db_put k (f\<lparr>ftf_eta := now + rp * 2 ^ fetching_failures f,
                     fetching_failures := fetching_failures f + 1\<rparr>) db)) \<and>
   (fetching_failures f \<ge> max_failures \<longrightarrow>
      fetch_failed k f max_failures rp now db =
        (f\<lparr>ftf_totally_failed := True\<rparr>, db_put k (f\<lparr>ftf_totally_failed := True\<rparr>) db)) \<and>
   db_get (snd (fetch_failed k f max_failures rp now db)) k =
     Some (fst (fetch_failed k f max_failures rp now db)) \<and>
   (fetching_failures f = 0 \<and> \<not> ftf_totally_failed f \<longrightarrow>
      (length nows < 10 \<longrightarrow>
         \<not> ftf_totally_failed (fst (fetch_failures k nows (f, db))) \<and>
         fetching_failures (fst (fetch_failures k nows (f, db))) = length nows) \<and>
      (length nows = 10 \<longrightarrow>
         ftf_totally_failed (fst (fetch_failures k nows (f, db))) \<and>
         db_get (snd (fetch_failures k nows (f, db))) k =
           Some (fst (fetch_failures k nows (f, db))))) \<and>
   (\<exists>w mc'. get_work t rs tbl mc = Inr (w, mc') \<and>
      (w = No_work \<or>
       (\<exists>row. w = One_work row \<and> row \<in> set tbl \<and> \<not> ftf_totally_failed (snd row)
              \<and> ftf_eta (snd row) \<le> t)))"
proof -
  have cap: "MAX_FEED_PULL_FAILURES = 9"
    by (simp add: MAX_FEED_PULL_FAILURES_def)
  have nine: "\<not> ftf_totally_failed (fst (fetch_failures k nows (f, db))) \<and>
         fetching_failures (fst (fetch_failures k nows (f, db))) = length nows"
    if "fetching_failures f = 0" "\<not> ftf_totally_failed f" "length nows < 10"
    using fetch_failures_below_cap [of f nows k db] that by (simp add: cap)
  have ten: "ftf_totally_failed (fst (fetch_failures k nows (f, db))) \<and>
         db_get (snd (fetch_failures k nows (f, db))) k =
           Some (fst (fetch_failures k nows (f, db)))"
    if z: "fetching_failures f = 0" "\<not> ftf_totally_failed f" and len: "length nows = 10"
  proof -
    from len obtain xs x where nows: "nows = xs @ [x]" and lx: "length xs = 9"
      by (cases nows rule: rev_cases) auto
    obtain f9 db9 where st: "fetch_failures k xs (f, db) = (f9, db9)"
      by (cases "fetch_failures k xs (f, db)")
    from fetch_failures_below_cap [of f xs k db] z lx st
    have "fetching_failures f9 \<ge> MAX_FEED_PULL_FAILURES"
      by (simp add: cap)
    then have "fetch_failed k f9 MAX_FEED_PULL_FAILURES FEED_PULL_RETRY_PERIOD x db9 =
        (f9\<lparr>ftf_totally_failed := True\<rparr>, db_put k (f9\<lparr>ftf_totally_failed := True\<rparr>) db9)"
      by (rule fetch_failed_at_cap)
    then show ?thesis
      by (simp add: nows fetch_failures_append st db_get_put)
  qed
  have work: "\<exists>w mc'. get_work t rs tbl mc = Inr (w, mc') \<and>
      (w = No_work \<or>
       (\<exists>row. w = One_work row \<and> row \<in> set tbl \<and> \<not> ftf_totally_failed (snd row)
              \<and> ftf_eta (snd row) \<le> t))"
  proof -
    from query_and_own_result [of "key_str ''FeedToFetch''" "feed_work_query t tbl"
        LEASE_PERIOD_SECONDS 1 20 4 rs mc]
    obtain w mc' where r: "get_work t rs tbl mc = Inr (w, mc')"
      and w: "w = No_work \<or> (\<exists>e. w = One_work e \<and> e \<in> set (feed_work_query t tbl))"
      unfolding get_work_def by auto
    have "row \<in> set tbl \<and> \<not> ftf_totally_failed (snd row) \<and> ftf_eta (snd row) \<le> t"
      if "row \<in> set (feed_work_query t tbl)" for row
      using that by (simp add: feed_work_query_def)
    with r w show ?thesis by blast
  qed
  from cap nine ten work show ?thesis
    by (simp add: fetch_failed_below fetch_failed_at_cap fetch_failed_stored)
qed

text \<open>
  A fresh work item that fails at the times 1 to 10: five failures leave it retrying
  with \<open>fetching_failures = 5\<close>, the tenth marks it \<open>totally_failed\<close>; and a table whose
  only row is totally failed gives no work.
\<close>

theorem fetch_failed_backoff_witness:
  "fetch_failed ''k'' example_feed MAX_FEED_PULL_FAILURES FEED_PULL_RETRY_PERIOD 1000 [] =
     (example_feed\<lparr>ftf_eta := 1060, fetching_failures := 1\<rparr>,
      [(''k'', example_feed\<lparr>ftf_eta := 1060, fetching_failures := 1\<rparr>)])
   \<and> \<not> ftf_totally_failed (fst (fetch_failures ''k'' [1, 2, 3, 4, 5] (example_feed, [])))
   \<and> fetching_failures (fst (fetch_failures ''k'' [1, 2, 3, 4, 5] (example_feed, []))) = 5
   \<and> ftf_totally_failed
       (fst (fetch_failures ''k'' [1, 2, 3, 4, 5, 6, 7, 8, 9, 10] (example_feed, [])))
   \<and> (\<exists>mc'. get_work 100 [] [(''k'', example_feed\<lparr>ftf_totally_failed := True\<rparr>)]
               example_memcache = Inr (No_work, mc'))"
proof -
  have z: "fetching_failures example_feed = 0 \<and> \<not> ftf_totally_failed example_feed"
    by (simp add: example_feed_def)
  have lt: "fetching_failures example_feed < MAX_FEED_PULL_FAILURES"
    by (simp add: example_feed_def MAX_FEED_PULL_FAILURES_def)
  note t1 = fetch_failed_backoff [where f = example_feed and k = "''k''"
      and max_failures = MAX_FEED_PULL_FAILURES and rp = FEED_PULL_RETRY_PERIOD
      and now = 1000 and db = "[]" and nows = "[1, 2, 3, 4, 5]" and t = 100 and rs = "[]"
      and tbl = "[(''k'', example_feed\<lparr>ftf_totally_failed := True\<rparr>)]"
      and mc = example_memcache, THEN conjunct2]
  note t2 = fetch_failed_backoff [where f = example_feed and k = "''k''"
      and max_failures = MAX_FEED_PULL_FAILURES and rp = FEED_PULL_RETRY_PERIOD
      and now = 1000 and db = "[]" and nows = "[1, 2, 3, 4, 5, 6, 7, 8, 9, 10]"
      and t = 100 and rs = "[]"
      and tbl = "[(''k'', example_feed\<lparr>ftf_totally_failed := True\<rparr>)]"
      and mc = example_memcache, THEN conjunct2]
  from t1 lt have a: "fetch_failed ''k'' example_feed MAX_FEED_PULL_FAILURES
      FEED_PULL_RETRY_PERIOD 1000 [] =
     (example_feed\<lparr>ftf_eta := 1060, fetching_failures := 1\<rparr>,
      [(''k'', example_feed\<lparr>ftf_eta := 1060, fetching_failures := 1\<rparr>)])"
    using z by (simp add: FEED_PULL_RETRY_PERIOD_def db_put_def)
  from t1 z have b: "\<not> ftf_totally_failed (fst (fetch_failures ''k'' [1, 2, 3, 4, 5] (example_feed, [])))
      \<and> fetching_failures (fst (fetch_failures ''k'' [1, 2, 3, 4, 5] (example_feed, []))) = 5"
    by simp
  from t2 z have c: "ftf_totally_failed
       (fst (fetch_failures ''k'' [1, 2, 3, 4, 5, 6, 7, 8, 9, 10] (example_feed, [])))"
    by simp
  from t1 have d: "\<exists>mc'. get_work 100 [] [(''k'', example_feed\<lparr>ftf_totally_failed := True\<rparr>)]
               example_memcache = Inr (No_work, mc')"
    by auto
  from a b c d show ?thesis by blast
qed

subsection \<open>EventToDeliver.create_event_for_topic\<close>







subsection \<open>EventToDeliver.get_next_subscribers\<close>

lemma index_of_None: "index_of xs x = None \<longleftrightarrow> x \<notin> set xs"
  by (induction xs) auto

lemma index_of_Some:
  "x \<in> set xs \<Longrightarrow> index_of xs x = Some (length (takeWhile (\<lambda>y. y \<noteq> x) xs))"
  by (induction xs) auto

lemma take_length_takeWhile: "take (length (takeWhile P xs)) xs = takeWhile P xs"
  by (induction xs) auto

text \<open>
  C6. In retry mode, with \<open>chunk\<close> the first \<open>chunk_size\<close> keys of \<open>failed_callbacks\<close>
  and \<open>sentinel\<close> the key of (\<open>last_callback\<close>, \<open>topic\<close>):

  \<^item> when \<open>last_callback\<close> is not empty and the sentinel occurs in the chunk, the chunk
    is cut just before the first occurrence of the sentinel, the subscribers returned
    are the stored ones among these keys, \<open>more_subscribers\<close> is false and
    \<open>last_callback\<close> stays;
  \<^item> otherwise \<open>more_subscribers\<close> says whether \<open>failed_callbacks\<close> is longer than the
    chunk, the subscribers returned are the stored ones among the keys of the chunk,
    and when \<open>last_callback\<close> is empty and some subscriber is returned, \<open>last_callback\<close>
    becomes the callback of the first of them.

  In both cases the keys of the chunk that was used are removed from the front of
  \<open>failed_callbacks\<close>.
\<close>

theorem get_next_subscribers_retry:
  assumes "delivery_mode self = RETRY"
    and "chunk = take (case chunk_size_arg of None \<Rightarrow> EVENT_SUBSCRIBER_CHUNK_SIZE | Some n \<Rightarrow> n)
                   (failed_callbacks self)"
    and "sentinel = create_key_name sha (last_callback self) (ev_topic self)"
  shows "(last_callback self \<noteq> [] \<and> sentinel \<in> set chunk \<longrightarrow>
           get_next_subscribers sha self chunk_size_arg subs =
             ((False, db_get_multi subs (takeWhile (\<lambda>k. k \<noteq> sentinel) chunk)),
              self\<lparr>failed_callbacks :=
                     drop (length (takeWhile (\<lambda>k. k \<noteq> sentinel) chunk))
                       (failed_callbacks self)\<rparr>)) \<and>
         (\<not> (last_callback self \<noteq> [] \<and> sentinel \<in> set chunk) \<longrightarrow>
           get_next_subscribers sha self chunk_size_arg subs =
             ((length (failed_callbacks self) > length chunk, db_get_multi subs chunk),
              self\<lparr>last_callback :=
                     (if db_get_multi subs chunk \<noteq> [] \<and> last_callback self = []
                      then callback (snd (hd (db_get_multi subs chunk)))
                      else last_callback self),
                   failed_callbacks := drop (length chunk) (failed_callbacks self)\<rparr>))"
proof (intro conjI impI)
  assume a: "last_callback self \<noteq> [] \<and> sentinel \<in> set chunk"
  then have ix: "index_of chunk sentinel = Some (length (takeWhile (\<lambda>k. k \<noteq> sentinel) chunk))"
    by (simp add: index_of_Some)
  show "get_next_subscribers sha self chunk_size_arg subs =
             ((False, db_get_multi subs (takeWhile (\<lambda>k. k \<noteq> sentinel) chunk)),
              self\<lparr>failed_callbacks :=
                     drop (length (takeWhile (\<lambda>k. k \<noteq> sentinel) chunk))
                       (failed_callbacks self)\<rparr>)"
    unfolding get_next_subscribers_def Let_def assms(1) delivery_mode.case
      assms(2) [symmetric] assms(3) [symmetric] ix
    using a by (simp add: take_length_takeWhile)
next
  assume b: "\<not> (last_callback self \<noteq> [] \<and> sentinel \<in> set chunk)"
  show "get_next_subscribers sha self chunk_size_arg subs =
             ((length (failed_callbacks self) > length chunk, db_get_multi subs chunk),
              self\<lparr>last_callback :=
                     (if db_get_multi subs chunk \<noteq> [] \<and> last_callback self = []
                      then callback (snd (hd (db_get_multi subs chunk)))
                      else last_callback self),
                   failed_callbacks := drop (length chunk) (failed_callbacks self)\<rparr>)"
  proof (cases "last_callback self = []")
    case True
    then show ?thesis
      unfolding get_next_subscribers_def Let_def assms(1) delivery_mode.case
        assms(2) [symmetric] assms(3) [symmetric]
      by simp
  next
    case False
    with b have "index_of chunk sentinel = None"
      by (simp add: index_of_None)
    with False show ?thesis
      unfolding get_next_subscribers_def Let_def assms(1) delivery_mode.case
        assms(2) [symmetric] assms(3) [symmetric]
      by simp
  qed
qed

text \<open>
  Three failed callbacks, of which the second is no longer stored. With the second as
  the sentinel the pass ends before it: only the first is returned and the other two
  keys stay. With no sentinel yet and chunks of two, the first chunk returns the first
  subscriber, makes it the sentinel, and reports that more are left.
\<close>

theorem get_next_subscribers_retry_witness:
  "get_next_subscribers (\<lambda>v. v) (example_retry_event\<lparr>last_callback := ''cb2''\<rparr>) None
      example_subscribers =
     ((False, [hd example_subscribers]),
      example_retry_event\<lparr>last_callback := ''cb2'',
        failed_callbacks := [create_key_name (\<lambda>v. v) ''cb2'' ''t'',
                             create_key_name (\<lambda>v. v) ''cb3'' ''t'']\<rparr>)
   \<and> get_next_subscribers (\<lambda>v. v) example_retry_event (Some 2) example_subscribers =
     ((True, [hd example_subscribers]),
      example_retry_event\<lparr>last_callback := ''cb1'',
        failed_callbacks := [create_key_name (\<lambda>v. v) ''cb3'' ''t'']\<rparr>)"
proof -
  have m: "delivery_mode (example_retry_event\<lparr>last_callback := ''cb2''\<rparr>) = RETRY"
    "delivery_mode example_retry_event = RETRY"
    by (simp_all add: example_retry_event_def)
  have a: "get_next_subscribers (\<lambda>v. v) (example_retry_event\<lparr>last_callback := ''cb2''\<rparr>) None
      example_subscribers =
     ((False, [hd example_subscribers]),
      example_retry_event\<lparr>last_callback := ''cb2'',
        failed_callbacks := [create_key_name (\<lambda>v. v) ''cb2'' ''t'',
                             create_key_name (\<lambda>v. v) ''cb3'' ''t'']\<rparr>)"
    using get_next_subscribers_retry [where chunk_size_arg = None and sha = "\<lambda>v. v"
        and subs = example_subscribers, OF m(1) refl refl]
    by (simp add: example_retry_event_def example_event_def example_subscribers_def
          EVENT_SUBSCRIBER_CHUNK_SIZE_def create_key_name_def get_hash_key_name_def
          db_get_multi_def db_get_def List.map_filter_def)
  have b: "get_next_subscribers (\<lambda>v. v) example_retry_event (Some 2) example_subscribers =
     ((True, [hd example_subscribers]),
      example_retry_event\<lparr>last_callback := ''cb1'',
        failed_callbacks := [create_key_name (\<lambda>v. v) ''cb3'' ''t'']\<rparr>)"
    using get_next_subscribers_retry [where chunk_size_arg = "Some 2" and sha = "\<lambda>v. v"
        and subs = example_subscribers, OF m(2) refl refl]
    by (simp add: example_retry_event_def example_event_def example_subscribers_def
          create_key_name_def get_hash_key_name_def
          db_get_multi_def db_get_def List.map_filter_def)
  from a b show ?thesis by blast
qed

subsection \<open>find_feed_updates\<close>



















end
